theory Spec2Isabelle
  imports Complex_Main
begin

section \<open>Numbers\<close>

text \<open>
  The program is TypeScript: every number is an IEEE double. The embedding takes them as
  exact reals, so the theorems below are about the arithmetic the code writes down, not
  about rounding. \<open>a % b\<close> of JavaScript truncates the quotient towards zero (the result
  has the sign of the dividend); it is only ever used with the divisor 24.
\<close>

definition js_rem :: "real \<Rightarrow> real \<Rightarrow> real" where
  "js_rem a b = a - b * of_int (if 0 \<le> a / b then \<lfloor>a / b\<rfloor> else \<lceil>a / b\<rceil>)"

section \<open>Time of day: \<open>LightingVisualizer.updateTimeOfDay\<close>\<close>

text \<open>
  \<open>updateTimeOfDay\<close> reads \<open>this.time\<close> and writes the derived lighting state: the
  \<open>isDay\<close> flag, the opacity of the star material, the intensity of the sun/moon light,
  the ambient intensity and the scene background (given to \<open>setHSL\<close> as hue, saturation,
  lightness). Each is a function of \<open>hour = this.time % 24\<close> alone. The positions of sun
  and moon (sines and cosines of the hour angle) are not part of this development.
\<close>

definition is_day :: "real \<Rightarrow> bool" where
  "is_day hour = (hour \<ge> 6 \<and> hour < 18)"

text \<open>The local variable \<open>opacity\<close>, before it is scaled and stored.\<close>

definition twilight_fade :: "real \<Rightarrow> real" where
  "twilight_fade hour =
     (let twilightStart = 18; twilightEnd = 20; dawnStart = 4; dawnEnd = 6 in
      if is_day hour then 0
      else if hour \<ge> twilightStart \<and> hour < twilightEnd
        then (hour - twilightStart) / (twilightEnd - twilightStart)
      else if hour \<ge> dawnStart \<and> hour < dawnEnd
        then 1 - (hour - dawnStart) / (dawnEnd - dawnStart)
      else 1)"

text \<open>\<open>(this.stars.material as THREE.PointsMaterial).opacity = opacity * 1.2\<close>\<close>

definition stars_opacity :: "real \<Rightarrow> real" where
  "stars_opacity hour = twilight_fade hour * 1.2"

definition light_intensity :: "real \<Rightarrow> real" where
  "light_intensity hour =
     (if is_day hour then
        (let noon = 12; distanceFromNoon = \<bar>hour - noon\<bar>
         in max 0 (5 - (distanceFromNoon / 6) * 4))
      else
        (let midnight = 0; distanceFromMidnight = \<bar>hour - midnight\<bar>
         in max 0 (1 - (distanceFromMidnight / 6))))"

definition ambient_intensity :: "real \<Rightarrow> real" where
  "ambient_intensity hour = (if is_day hour then 0.3 else 0.15)"

text \<open>The arguments of \<open>skyColor.setHSL\<close>: hue, saturation, lightness.\<close>

definition sky_hsl :: "real \<Rightarrow> real \<times> real \<times> real" where
  "sky_hsl hour =
     (if is_day hour then (0.6, 0.9, 0.7)
      else
        (let nightProgress = min 1 (max 0 ((hour - 18) / 2)) in
         if hour \<ge> 4 \<and> hour < 6 then
           (let sunriseProgress = (hour - 4) / 2
            in (0.6, 0.9, 0.05 + sunriseProgress * 0.65))
         else (0.6, 0.8, 0.05 + nightProgress * 0.05)))"

record celestial =
  isDay :: bool
  starsOpacity :: real
  sunLightIntensity :: real
  ambientLightIntensity :: real
  background :: "real \<times> real \<times> real"

definition updateTimeOfDay :: "real \<Rightarrow> celestial" where
  "updateTimeOfDay time =
     (let hour = js_rem time 24 in
      \<lparr> isDay = is_day hour,
        starsOpacity = stars_opacity hour,
        sunLightIntensity = light_intensity hour,
        ambientLightIntensity = ambient_intensity hour,
        background = sky_hsl hour \<rparr>)"

text \<open>
  \<open>NatureScene.update\<close> colours its own sky dome from \<open>dayTime\<close>, with the day scaled to
  the unit interval and the boundaries written as decimal fractions.
\<close>

definition nature_sky_hsl :: "real \<Rightarrow> real \<times> real \<times> real" where
  "nature_sky_hsl dayTime =
     (let time = js_rem dayTime 24 / 24 in
      if time \<ge> 0.25 \<and> time < 0.75 then (0.6, 0.9, 0.7)
      else if time \<ge> 0.167 \<and> time < 0.25 then
        (let sunriseProgress = (time - 0.167) / 0.083
         in (0.6, 0.9, 0.05 + sunriseProgress * 0.65))
      else
        (let nightProgress = min 1 (max 0 ((time - 0.75) / 0.083))
         in (0.6, 0.8, 0.05 + nightProgress * 0.05)))"

definition lightness :: "real \<times> real \<times> real \<Rightarrow> real" where
  "lightness c = snd (snd c)"

definition saturation :: "real \<times> real \<times> real \<Rightarrow> real" where
  "saturation c = fst (snd c)"

section \<open>Clock and rain: the per-frame state\<close>

text \<open>
  The fields that the frame loop and the time and rain controls read and write: those of
  \<open>LightingVisualizer\<close>, and of its \<open>NatureScene\<close> the field \<open>dayTime\<close> and the x
  coordinates of the clouds. The rain geometry holds a flat position array (three floats
  a drop) and a velocity array (one float a drop), both of length fixed by \<open>rainCount\<close>;
  here a drop is a record of its three coordinates and its velocity. \<open>Math.random()\<close>
  is a stream \<open>rnd\<close> of numbers given from outside, and \<open>calls\<close> counts how many have
  been drawn.
\<close>

record drop =
  px :: real
  py :: real
  pz :: real
  velocity :: real

record sim =
  time :: real
  timeSpeed :: real
  isPlaying :: bool
  isRaining :: bool
  rainIntensity :: real
  rain :: "drop list"
  calls :: nat
  dayTime :: real
  clouds :: "real list"

text \<open>The loop of \<open>createRain\<close>: four draws a drop, in the order x, y, z, velocity.\<close>

fun new_drops :: "(nat \<Rightarrow> real) \<Rightarrow> nat \<Rightarrow> nat \<Rightarrow> drop list \<times> nat" where
  "new_drops rnd k 0 = ([], k)"
| "new_drops rnd k (Suc n) =
     (let d = \<lparr> px = (rnd k - 0.5) * 200,
                py = rnd (k + 1) * 100,
                pz = (rnd (k + 2) - 0.5) * 200,
                velocity = 0.5 + rnd (k + 3) * 0.5 \<rparr>;
          (ds, k') = new_drops rnd (k + 4) n
      in (d # ds, k'))"

definition rainCount :: nat where
  "rainCount = 15000"

definition createRain :: "(nat \<Rightarrow> real) \<Rightarrow> sim \<Rightarrow> sim" where
  "createRain rnd s =
     (let (ds, k) = new_drops rnd (calls s) rainCount
      in s\<lparr> rain := ds, calls := k \<rparr>)"

text \<open>The loop of \<open>updateRain\<close>: a drop that fell below zero draws a new x and z.\<close>

fun fall :: "(nat \<Rightarrow> real) \<Rightarrow> real \<Rightarrow> nat \<Rightarrow> drop list \<Rightarrow> drop list \<times> nat" where
  "fall rnd intensity k [] = ([], k)"
| "fall rnd intensity k (d # ds) =
     (let y = py d - velocity d * intensity in
      if y < 0 then
        (let d' = d\<lparr> py := 100, px := (rnd k - 0.5) * 200, pz := (rnd (k + 1) - 0.5) * 200 \<rparr>;
             (ds', k') = fall rnd intensity (k + 2) ds
         in (d' # ds', k'))
      else
        (let (ds', k') = fall rnd intensity k ds
         in (d\<lparr> py := y \<rparr> # ds', k')))"

definition updateRain :: "(nat \<Rightarrow> real) \<Rightarrow> sim \<Rightarrow> sim" where
  "updateRain rnd s =
     (if \<not> isRaining s then s
      else (let (ds, k) = fall rnd (rainIntensity s) (calls s) (rain s)
            in s\<lparr> rain := ds, calls := k \<rparr>))"

text \<open>
  \<open>NatureScene.update\<close>. It asks its \<open>THREE.Clock\<close> for \<open>getDelta()\<close>, the seconds
  since the clock was last asked, which is the argument \<open>delta\<close> here: the clock is
  library code and its readings come from outside. \<open>dayTime\<close> grows by a tenth of
  \<open>delta\<close> and is never reduced; every cloud drifts by \<open>windSpeed * delta\<close> and goes back
  to -100 once past 100. The sky dome is coloured \<open>nature_sky_hsl\<close> of the new
  \<open>dayTime\<close>. The water, moved by the clock's total elapsed time, is left out.
\<close>

definition windSpeed :: real where
  "windSpeed = 0.2"

definition drift :: "real \<Rightarrow> real \<Rightarrow> real" where
  "drift delta x = (let x' = x + windSpeed * delta in if x' > 100 then - 100 else x')"

definition nature_update :: "real \<Rightarrow> sim \<Rightarrow> sim" where
  "nature_update delta s =
     s\<lparr> dayTime := dayTime s + delta * 0.1, clouds := map (drift delta) (clouds s) \<rparr>"

text \<open>
  \<open>animate\<close>, the callback of \<open>requestAnimationFrame\<close>. When the speed is positive the
  hour moves by \<open>timeSpeed * 0.01\<close> and is set to 0 on reaching 24, the lighting is
  derived (\<open>updateTimeOfDay (time s)\<close> of the state left), and \<open>dayTime\<close> is set to the
  hour before a first \<open>natureScene.update()\<close>. Then the rain falls, and
  \<open>natureScene.update()\<close> runs, at any speed. The method takes no argument. The two
  readings the clock can give in one frame are \<open>deltaTime\<close>, for the first
  \<open>getDelta()\<close> of the frame (the seconds since the last frame read the clock), and
  \<open>lag\<close>, for a second one in the same frame (the seconds since the first).
\<close>

definition animate :: "(nat \<Rightarrow> real) \<Rightarrow> real \<Rightarrow> real \<Rightarrow> sim \<Rightarrow> sim" where
  "animate rnd deltaTime lag s =
     (if timeSpeed s > 0 then
        (let t = time s + timeSpeed s * 0.01;
             s1 = s\<lparr> time := (if t \<ge> 24 then 0 else t) \<rparr>;
             s2 = nature_update deltaTime (s1\<lparr> dayTime := time s1 \<rparr>)
         in nature_update lag (updateRain rnd s2))
      else nature_update deltaTime (updateRain rnd s))"

subsection \<open>The controls of the time folder and of the rain panel\<close>

text \<open>
  The hour slider sets the hour and \<open>dayTime\<close> and calls \<open>natureScene.update()\<close>, which
  reads the clock: \<open>delta\<close> is that reading.
\<close>

definition setHour :: "real \<Rightarrow> real \<Rightarrow> sim \<Rightarrow> sim" where
  "setHour v delta s = nature_update delta (s\<lparr> time := v, dayTime := v \<rparr>)"

definition setSpeed :: "real \<Rightarrow> sim \<Rightarrow> sim" where
  "setSpeed v s = s\<lparr> timeSpeed := v \<rparr>"

definition setPlay :: "bool \<Rightarrow> sim \<Rightarrow> sim" where
  "setPlay v s = s\<lparr> isPlaying := v, timeSpeed := (if v then 1 else 0) \<rparr>"

text \<open>Enabling the rain draws every drop anew: x, y, z in that order; the velocity stays.\<close>

fun respawn :: "(nat \<Rightarrow> real) \<Rightarrow> nat \<Rightarrow> drop list \<Rightarrow> drop list \<times> nat" where
  "respawn rnd k [] = ([], k)"
| "respawn rnd k (d # ds) =
     (let d' = d\<lparr> px := (rnd k - 0.5) * 200,
                  py := rnd (k + 1) * 100,
                  pz := (rnd (k + 2) - 0.5) * 200 \<rparr>;
          (ds', k') = respawn rnd (k + 3) ds
      in (d' # ds', k'))"

definition setRainEnabled :: "(nat \<Rightarrow> real) \<Rightarrow> bool \<Rightarrow> sim \<Rightarrow> sim" where
  "setRainEnabled rnd v s =
     (if v then
        (let (ds, k) = respawn rnd (calls s) (rain s)
         in s\<lparr> isRaining := v, rain := ds, calls := k \<rparr>)
      else s\<lparr> isRaining := v \<rparr>)"

definition setRainIntensity :: "real \<Rightarrow> sim \<Rightarrow> sim" where
  "setRainIntensity v s = s\<lparr> rainIntensity := v \<rparr>"

text \<open>The loader of \<open>NatureScene\<close> has run \<open>addClouds\<close>: the x coordinates of its clouds.\<close>

definition cloudsLoaded :: "real list \<Rightarrow> sim \<Rightarrow> sim" where
  "cloudsLoaded xs s = s\<lparr> clouds := clouds s @ xs \<rparr>"

text \<open>
  What can happen to this state. A frame and a move of the hour slider come with the
  readings their calls of \<open>getDelta()\<close> get.
\<close>

datatype sim_event =
    Frame real real
  | SetHour real real
  | SetSpeed real
  | SetPlay bool
  | SetRainEnabled bool
  | SetRainIntensity real
  | CloudsLoaded "real list"

fun sim_step :: "(nat \<Rightarrow> real) \<Rightarrow> sim \<Rightarrow> sim_event \<Rightarrow> sim" where
  "sim_step rnd s (Frame deltaTime lag) = animate rnd deltaTime lag s"
| "sim_step rnd s (SetHour v delta) = setHour v delta s"
| "sim_step rnd s (SetSpeed v) = setSpeed v s"
| "sim_step rnd s (SetPlay v) = setPlay v s"
| "sim_step rnd s (SetRainEnabled v) = setRainEnabled rnd v s"
| "sim_step rnd s (SetRainIntensity v) = setRainIntensity v s"
| "sim_step rnd s (CloudsLoaded xs) = cloudsLoaded xs s"

fun sim_run :: "(nat \<Rightarrow> real) \<Rightarrow> sim \<Rightarrow> sim_event list \<Rightarrow> sim" where
  "sim_run rnd s [] = s"
| "sim_run rnd s (e # es) = sim_run rnd (sim_step rnd s e) es"

text \<open>
  The state in which the constructor starts the frame loop: \<open>time = 0\<close>, speed 1,
  playing, no rain, intensity 1, the drops of \<open>createRain\<close>, \<open>dayTime = 0\<close>, and no
  clouds yet (the loader adds them later).
\<close>

definition sim_init :: "(nat \<Rightarrow> real) \<Rightarrow> sim" where
  "sim_init rnd =
     createRain rnd \<lparr> time = 0, timeSpeed = 1, isPlaying = True, isRaining = False,
                      rainIntensity = 1.0, rain = [], calls = 0, dayTime = 0, clouds = [] \<rparr>"

text \<open>Sample inputs: a random stream that always yields one half, and three states.\<close>

definition rnd_half :: "nat \<Rightarrow> real" where
  "rnd_half k = 1 / 2"

definition late_evening :: sim where
  "late_evening = \<lparr> time = 23.5, timeSpeed = 4, isPlaying = True, isRaining = False,
                     rainIntensity = 1.0, rain = [], calls = 0, dayTime = 23.5,
                     clouds = [99.9, - 20] \<rparr>"

definition midnight_start :: sim where
  "midnight_start = \<lparr> time = 0, timeSpeed = 1, isPlaying = True, isRaining = False,
                       rainIntensity = 1.0, rain = [], calls = 0, dayTime = 0,
                       clouds = [99.9, - 20] \<rparr>"

definition two_drops :: sim where
  "two_drops = \<lparr> time = 0, timeSpeed = 1, isPlaying = True, isRaining = True,
                  rainIntensity = 3,
                  rain = [\<lparr> px = 10, py = 1, pz = -20, velocity = 0.5 \<rparr>,
                          \<lparr> px = -30, py = 50, pz = 40, velocity = 1 \<rparr>],
                  calls = 0, dayTime = 0, clouds = [] \<rparr>"

text \<open>
  What the controls can send: the rain intensity slider ranges over 0.1 to 3.0, the
  speed slider over 0 to 10, the hour slider over 0 to 24.
\<close>

fun in_slider_range :: "sim_event \<Rightarrow> bool" where
  "in_slider_range (Frame deltaTime lag) = True"
| "in_slider_range (SetHour v delta) = (0 \<le> v \<and> v \<le> 24)"
| "in_slider_range (SetSpeed v) = (0 \<le> v \<and> v \<le> 10)"
| "in_slider_range (SetPlay v) = True"
| "in_slider_range (SetRainEnabled v) = True"
| "in_slider_range (SetRainIntensity v) = (0.1 \<le> v \<and> v \<le> 3)"
| "in_slider_range (CloudsLoaded xs) = True"

text \<open>A step that moves the clock forward or changes how fast it runs: not the hour slider.\<close>

fun is_clock_step :: "sim_event \<Rightarrow> bool" where
  "is_clock_step (SetHour v delta) = False"
| "is_clock_step e = True"

section \<open>The registry of lights and objects\<close>

text \<open>
  Lights, helpers, meshes and GUI folders are JavaScript objects, compared by identity:
  each \<open>new\<close> takes the next unused handle. The scene is the list of its children. A
  folder of the panel carries its title and the closure behind its button: the remove
  button of a light folder calls \<open>removeLight(name)\<close>, the delete button of an object
  folder calls \<open>deleteObject(mesh, objectFolder)\<close>. Position, geometry and the spot
  attributes of an entity are read by no operation of the registry and are left out, as
  are the children that \<open>NatureScene\<close> puts into the same scene.
\<close>

type_synonym handle = nat

datatype button = NoButton | RemoveLight string | DeleteObject handle handle

record folder =
  fid :: handle
  title :: string
  button :: button

record lightSource =
  name :: string
  light :: handle
  helper :: handle
  color :: int
  intensity :: real
  ltype :: string
  lfolder :: handle

record material =
  mcolor :: int
  roughness :: real
  metalness :: real

record world =
  scene :: "handle list"
  gui :: "folder list"
  lightSources :: "lightSource list"
  objects :: "handle list"
  materials :: "handle \<rightharpoonup> material"
  played :: "string list"
  fresh :: handle

datatype error = DuplicateFolder string

subsection \<open>The collaborators: three.js scene, dat.GUI panel, template strings\<close>

text \<open>
  \<open>Object3D.add\<close> takes the child out of its parent before it appends it;
  \<open>Object3D.remove\<close> splices the child out where \<open>indexOf\<close> finds it.
\<close>

definition scene_add :: "handle \<Rightarrow> handle list \<Rightarrow> handle list" where
  "scene_add h sc = remove1 h sc @ [h]"

definition scene_remove :: "handle \<Rightarrow> handle list \<Rightarrow> handle list" where
  "scene_remove h sc = remove1 h sc"

definition has_folder :: "string \<Rightarrow> folder list \<Rightarrow> bool" where
  "has_folder n g = list_ex (\<lambda>f. title f = n) g"

definition gui_removeFolder :: "handle \<Rightarrow> folder list \<Rightarrow> folder list" where
  "gui_removeFolder h g = filter (\<lambda>f. fid f \<noteq> h) g"

text \<open>The decimal digits a template string writes for a non-negative integer.\<close>

fun string_of_nat :: "nat \<Rightarrow> string" where
  "string_of_nat n =
     (if n < 10 then [''0123456789'' ! n]
      else string_of_nat (n div 10) @ [''0123456789'' ! (n mod 10)])"

declare string_of_nat.simps [simp del]

subsection \<open>\<open>addLight\<close> and \<open>removeLight\<close>\<close>

text \<open>
  The panel library is not part of the repository. Whether \<open>addFolder\<close> accepts a title
  that a folder of the panel already has is the parameter \<open>strict\<close>: when it is set,
  \<open>addFolder\<close> throws on such a title (as the dat.GUI releases with \<open>removeFolder\<close> do),
  and the exception leaves \<open>addLight\<close> after the light and its helper went into the
  scene. The result is the error thrown, or \<open>None\<close> for a type the \<open>switch\<close> does not
  know, or the name that the new folder's remove button will pass to \<open>removeLight\<close>.
\<close>

definition light_name :: "string \<Rightarrow> nat \<Rightarrow> string" where
  "light_name type n = type @ '' Light '' @ string_of_nat n @ '' (edit or remove)''"

definition addLight :: "bool \<Rightarrow> string \<Rightarrow> world \<Rightarrow> (error + string option) \<times> world" where
  "addLight strict type s =
     (let color = 0xffffff; intensity = 5;
          name = light_name type (length (lightSources s) + 1) in
      if type \<noteq> ''Directional'' \<and> type \<noteq> ''Point'' \<and> type \<noteq> ''Spot'' then (Inr None, s)
      else
        (let l = fresh s;
             s1 = s\<lparr> fresh := l + 1, scene := scene_add l (scene s) \<rparr>;
             h = fresh s1;
             s2 = s1\<lparr> fresh := h + 1, scene := scene_add h (scene s1) \<rparr> in
         if strict \<and> has_folder name (gui s2) then (Inl (DuplicateFolder name), s2)
         else
           (let f = fresh s2;
                s3 = s2\<lparr> fresh := f + 1,
                         gui := gui s2 @ [\<lparr> fid = f, title = name, button = RemoveLight name \<rparr>] \<rparr>;
                s4 = s3\<lparr> lightSources := lightSources s3 @
                           [\<lparr> name = name, light = l, helper = h, color = color,
                              intensity = intensity, ltype = type, lfolder = f \<rparr>],
                         played := played s3 @ [''addLight''] \<rparr>
            in (Inr (Some name), s4))))"

definition removeLight :: "string \<Rightarrow> world \<Rightarrow> world" where
  "removeLight n s =
     (case find (\<lambda>source. name source = n) (lightSources s) of
        None \<Rightarrow> s
      | Some lightSource \<Rightarrow>
          s\<lparr> scene := scene_remove (helper lightSource)
                        (scene_remove (light lightSource) (scene s)),
             gui := gui_removeFolder (lfolder lightSource) (gui s),
             lightSources := filter (\<lambda>source. name source \<noteq> n) (lightSources s),
             played := played s @ [''removeLight''] \<rparr>)"

subsection \<open>\<open>addObject\<close> and \<open>deleteObject\<close>\<close>

text \<open>
  The result of \<open>addObject\<close> is the error thrown, or \<open>None\<close> for an unknown type, or the
  mesh and the folder that the new folder's delete button will pass to \<open>deleteObject\<close>.
\<close>

definition object_name :: "string \<Rightarrow> nat \<Rightarrow> string" where
  "object_name type n = type @ '' '' @ string_of_nat n @ '' (edit or remove)''"

definition addObject ::
  "bool \<Rightarrow> string \<Rightarrow> world \<Rightarrow> (error + (handle \<times> handle) option) \<times> world" where
  "addObject strict type s =
     (if type \<noteq> ''Sphere'' \<and> type \<noteq> ''Cube'' \<and> type \<noteq> ''Torus'' \<and> type \<noteq> ''Cylinder''
         \<and> type \<noteq> ''Cone'' then (Inr None, s)
      else
        (let mesh = fresh s;
             s1 = s\<lparr> fresh := mesh + 1,
                      materials := (materials s)
                        (mesh \<mapsto> \<lparr> mcolor = 0x808080, roughness = 0.5, metalness = 0.5 \<rparr>),
                      scene := scene_add mesh (scene s),
                      objects := objects s @ [mesh] \<rparr>;
             name = object_name type (length (objects s1)) in
         if strict \<and> has_folder name (gui s1) then (Inl (DuplicateFolder name), s1)
         else
           (let f = fresh s1;
                s2 = s1\<lparr> fresh := f + 1,
                         gui := gui s1 @ [\<lparr> fid = f, title = name, button = DeleteObject mesh f \<rparr>],
                         played := played s1 @ [''addObject''] \<rparr>
            in (Inr (Some (mesh, f)), s2))))"

definition deleteObject :: "handle \<Rightarrow> handle \<Rightarrow> world \<Rightarrow> world" where
  "deleteObject mesh f s =
     s\<lparr> played := played s @ [''removeObject''],
        scene := scene_remove mesh (scene s),
        objects := filter (\<lambda>obj. obj \<noteq> mesh) (objects s),
        gui := gui_removeFolder f (gui s) \<rparr>"

subsection \<open>What the user can do to the registry\<close>

fun press :: "button \<Rightarrow> world \<Rightarrow> world" where
  "press NoButton s = s"
| "press (RemoveLight n) s = removeLight n s"
| "press (DeleteObject mesh f) s = deleteObject mesh f s"

text \<open>A click on the button of the folder with handle \<open>h\<close>, if the panel still shows it.\<close>

definition click :: "handle \<Rightarrow> world \<Rightarrow> world" where
  "click h s =
     (case find (\<lambda>f. fid f = h) (gui s) of
        None \<Rightarrow> s
      | Some f \<Rightarrow> press (button f) s)"

datatype user_event = AddLight string | AddObject string | Click handle

fun world_step :: "bool \<Rightarrow> world \<Rightarrow> user_event \<Rightarrow> world" where
  "world_step strict s (AddLight type) = snd (addLight strict type s)"
| "world_step strict s (AddObject type) = snd (addObject strict type s)"
| "world_step strict s (Click h) = click h s"

fun world_run :: "bool \<Rightarrow> world \<Rightarrow> user_event list \<Rightarrow> world" where
  "world_run strict s [] = s"
| "world_run strict s (e # es) = world_run strict (world_step strict s e) es"

text \<open>
  The constructor: stars, sun, moon, sun light and ambient light in the scene (handles 0
  to 4), the eight fixed folders of the panel (handles 5 to 12), then three lights, three
  objects, and the rain points.
\<close>

definition world_base :: world where
  "world_base =
     \<lparr> scene = [0, 1, 2, 3, 4],
       gui = [\<lparr> fid = 5, title = ''Controls'', button = NoButton \<rparr>,
              \<lparr> fid = 6, title = ''Camera'', button = NoButton \<rparr>,
              \<lparr> fid = 7, title = ''Time Controls'', button = NoButton \<rparr>,
              \<lparr> fid = 8, title = ''Ambient Light'', button = NoButton \<rparr>,
              \<lparr> fid = 9, title = ''Add Lighting'', button = NoButton \<rparr>,
              \<lparr> fid = 10, title = ''Post-Processing'', button = NoButton \<rparr>,
              \<lparr> fid = 11, title = ''Add Objects'', button = NoButton \<rparr>,
              \<lparr> fid = 12, title = ''Sound'', button = NoButton \<rparr>],
       lightSources = [], objects = [], materials = Map.empty, played = [], fresh = 13 \<rparr>"

definition world_init :: "bool \<Rightarrow> world" where
  "world_init strict =
     (let s = world_run strict world_base
                [AddLight ''Directional'', AddLight ''Point'', AddLight ''Spot'',
                 AddObject ''Sphere'', AddObject ''Cube'', AddObject ''Torus''];
          r = fresh s
      in s\<lparr> fresh := r + 1, scene := scene_add r (scene s) \<rparr>)"

subsection \<open>Sample registry states and the predicates of the proofs\<close>

definition gray :: material where
  "gray = \<lparr> mcolor = 0x808080, roughness = 0.5, metalness = 0.5 \<rparr>"

definition white_light :: "string \<Rightarrow> string \<Rightarrow> handle \<Rightarrow> lightSource" where
  "white_light type n l =
     \<lparr> name = n, light = l, helper = l + 1, color = 0xffffff, intensity = 5,
       ltype = type, lfolder = l + 2 \<rparr>"

definition fixed_folders :: "folder list" where
  "fixed_folders = gui world_base"

text \<open>
  After the constructor the user removes the spot light and the directional light (the
  folders with handles 21 and 15): one light is left, called Point Light 2.
\<close>

definition one_point_light :: "bool \<Rightarrow> world" where
  "one_point_light strict = world_run strict (world_init strict) [Click 21, Click 15]"

text \<open>After the constructor the user removes the directional light.\<close>

definition without_directional :: "bool \<Rightarrow> world" where
  "without_directional strict = world_run strict (world_init strict) [Click 15]"

text \<open>
  After the constructor the user adds a fourth light, removes it again (its folder has
  handle 31) and removes the spot light.
\<close>

definition after_fourth_light :: "bool \<Rightarrow> world" where
  "after_fourth_light strict =
     world_run strict (world_init strict) [AddLight ''Point'', Click 31, Click 21]"

text \<open>
  After the constructor the user deletes the cube and adds a torus, with a panel that
  accepts a second folder of a title it already shows.
\<close>

definition twin_torus :: world where
  "twin_torus = world_run False (world_init False) [Click 25, AddObject ''Torus'']"

text \<open>
  The round trip of the specification: create a light and, when the create ran to its
  end, remove the light under the name the create gave it.
\<close>

definition create_then_remove :: "bool \<Rightarrow> string \<Rightarrow> world \<Rightarrow> world" where
  "create_then_remove strict type s =
     (case addLight strict type s of
        (Inr (Some n), s') \<Rightarrow> removeLight n s'
      | (_, s') \<Rightarrow> s')"

text \<open>Handles in use lie below the next unused one, and no child or folder is listed twice.\<close>

definition world_ok :: "world \<Rightarrow> bool" where
  "world_ok s = (distinct (scene s) \<and> distinct (map fid (gui s))
                 \<and> list_all (\<lambda>x. x < fresh s) (scene s)
                 \<and> list_all (\<lambda>g. fid g < fresh s) (gui s))"

text \<open>What a drop keeps from frame to frame, and the rain state as a whole.\<close>

definition drop_ok :: "drop \<Rightarrow> bool" where
  "drop_ok d = (0 \<le> py d \<and> py d \<le> 100 \<and> 0 \<le> velocity d)"

definition rain_ok :: "sim \<Rightarrow> bool" where
  "rain_ok s = (list_all drop_ok (rain s) \<and> 0 \<le> rainIntensity s \<and> length (rain s) = rainCount)"

section \<open>The time of day\<close>

lemma js_rem_id: "0 \<le> t \<Longrightarrow> t < 24 \<Longrightarrow> js_rem t 24 = t"
proof -
  assume a: "0 \<le> t" "t < 24"
  have "\<lfloor>t / 24\<rfloor> = 0" using a by (simp add: floor_eq_iff)
  then show ?thesis using a by (simp add: js_rem_def)
qed

subsection \<open>Intensity of the sun and moon light\<close>

lemma light_intensity_range: "0 \<le> light_intensity h \<and> light_intensity h \<le> 5"
  by (auto simp add: light_intensity_def is_day_def Let_def)

lemma light_intensity_noon: "light_intensity 12 = 5"
  by (simp add: light_intensity_def is_day_def Let_def)

lemma light_intensity_day:
  "6 \<le> h \<Longrightarrow> h < 18 \<Longrightarrow> light_intensity h = 5 - \<bar>h - 12\<bar> * 2 / 3"
  by (simp add: light_intensity_def is_day_def Let_def abs_if max_def)

lemma light_intensity_morning: "0 \<le> h \<Longrightarrow> h < 6 \<Longrightarrow> light_intensity h = 1 - h / 6"
  by (auto simp add: light_intensity_def is_day_def Let_def)

lemma light_intensity_evening: "18 \<le> h \<Longrightarrow> light_intensity h = 0"
  by (auto simp add: light_intensity_def is_day_def Let_def)

text \<open>
  Claim C4. The intensity lies between 0 and 5, is 5 at noon and falls linearly with the
  distance from noon by day (the lemmas above). By night the claim wants it to depend on
  the distance from midnight round the clock, so that 23 o'clock and 1 o'clock, both one
  hour from midnight, get the same light. The code measures \<open>distanceFromMidnight\<close> as
  \<open>Math.abs(hour - 0)\<close>: at 23 o'clock that is 23 hours, and the light is off, while at
  1 o'clock it is five sixths.
\<close>

theorem night_intensity_not_circular:
  "sunLightIntensity (updateTimeOfDay 23) = 0 \<and> sunLightIntensity (updateTimeOfDay 1) = 5 / 6"
  by (simp add: updateTimeOfDay_def js_rem_def light_intensity_def is_day_def Let_def)

subsection \<open>Sky colour and stars\<close>

lemma twilight_fade_range: "0 \<le> twilight_fade h \<and> twilight_fade h \<le> 1"
  by (simp add: twilight_fade_def is_day_def)

lemma twilight_fade_lipschitz:
  "\<bar>twilight_fade a - twilight_fade b\<bar> \<le> \<bar>a - b\<bar> / 2"
  by (simp add: twilight_fade_def is_day_def Let_def) (auto simp: abs_if field_simps)

lemma stars_opacity_continuous:
  "\<bar>stars_opacity (h - e) - stars_opacity (h + e)\<bar> \<le> 1.2 * \<bar>e\<bar>"
proof -
  have "\<bar>twilight_fade (h - e) - twilight_fade (h + e)\<bar> \<le> \<bar>(h - e) - (h + e)\<bar> / 2"
    by (rule twilight_fade_lipschitz)
  then have "\<bar>twilight_fade (h - e) - twilight_fade (h + e)\<bar> \<le> \<bar>e\<bar>"
    by (simp add: abs_mult)
  then show ?thesis
    unfolding stars_opacity_def by (simp add: abs_if split: if_splits)
qed

lemma sky_dusk_jump:
  "0 < e \<Longrightarrow> e \<le> 2 \<Longrightarrow> lightness (sky_hsl (18 - e)) - lightness (sky_hsl (18 + e)) \<ge> 0.6"
  by (auto simp add: sky_hsl_def lightness_def is_day_def Let_def)

text \<open>
  Claim C5. The star opacity is continuous at every hour (\<open>stars_opacity_continuous\<close>),
  and the sky is continuous at sunrise, hour 6. At dusk the sky is not: just before hour
  18 the background has lightness 0.7, just after it has lightness 0.05, and the same
  holds for the sky dome of \<open>NatureScene.update\<close>; at hour 4 the saturation steps
  from 0.8 to 0.9.
\<close>

theorem sky_pops_at_dusk:
  "background (updateTimeOfDay 17.999) = (0.6, 0.9, 0.7)
   \<and> background (updateTimeOfDay 18.001) = (0.6, 0.8, 0.050025)
   \<and> background (updateTimeOfDay 3.999) = (0.6, 0.8, 0.05)
   \<and> background (updateTimeOfDay 4.001) = (0.6, 0.9, 0.050325)
   \<and> nature_sky_hsl 17.999 = (0.6, 0.9, 0.7)
   \<and> saturation (nature_sky_hsl 18.001) = 0.8
   \<and> lightness (nature_sky_hsl 18.001) < 0.051"
  by (simp add: updateTimeOfDay_def js_rem_def sky_hsl_def nature_sky_hsl_def lightness_def
        saturation_def is_day_def Let_def)

text \<open>
  Claim C8, as stated, fails at midnight: the opacity stored in the star material is the
  fade factor times 1.2, which is 1.2 at full night.
\<close>

theorem stars_exceed_one:
  "starsOpacity (updateTimeOfDay 0) = 1.2 \<and> \<not> starsOpacity (updateTimeOfDay 0) \<le> 1"
  by (simp add: updateTimeOfDay_def js_rem_def stars_opacity_def twilight_fade_def is_day_def)

text \<open>
  Claim C8, amended. For every hour in [0,24) the star opacity lies in [0, 1.2]: it is 0
  by day, rises linearly from 0 to 1.2 over the dusk hours 18 to 20, is exactly 1.2 at
  full night, and falls linearly from 1.2 to 0 over the dawn hours 4 to 6.
\<close>

theorem stars_opacity_range:
  assumes "0 \<le> t" and "t < 24"
  shows "0 \<le> starsOpacity (updateTimeOfDay t) \<and> starsOpacity (updateTimeOfDay t) \<le> 1.2
         \<and> (6 \<le> t \<and> t < 18 \<longrightarrow> starsOpacity (updateTimeOfDay t) = 0)
         \<and> (18 \<le> t \<and> t < 20 \<longrightarrow> starsOpacity (updateTimeOfDay t) = 0.6 * (t - 18))
         \<and> (t < 4 \<or> 20 \<le> t \<longrightarrow> starsOpacity (updateTimeOfDay t) = 1.2)
         \<and> (4 \<le> t \<and> t < 6 \<longrightarrow> starsOpacity (updateTimeOfDay t) = 1.2 - 0.6 * (t - 4))"
  using assms
  by (simp add: updateTimeOfDay_def js_rem_id stars_opacity_def twilight_fade_def is_day_def)

text \<open>The amended claim C8 at 19 o'clock, halfway through dusk.\<close>

theorem stars_opacity_range_witness:
  "(0::real) \<le> 19 \<and> (19::real) < 24 \<and> starsOpacity (updateTimeOfDay 19) = 0.6
   \<and> starsOpacity (updateTimeOfDay 19) \<le> 1.2"
  using stars_opacity_range [of 19] by simp

section \<open>The clock\<close>

lemma updateRain_frame:
  "time (updateRain rnd s) = time s" "timeSpeed (updateRain rnd s) = timeSpeed s"
  "dayTime (updateRain rnd s) = dayTime s" "clouds (updateRain rnd s) = clouds s"
  "isPlaying (updateRain rnd s) = isPlaying s" "isRaining (updateRain rnd s) = isRaining s"
  "rainIntensity (updateRain rnd s) = rainIntensity s"
  by (simp_all add: updateRain_def Let_def case_prod_beta)

lemma nature_update_frame:
  "time (nature_update delta s) = time s" "timeSpeed (nature_update delta s) = timeSpeed s"
  "rain (nature_update delta s) = rain s" "calls (nature_update delta s) = calls s"
  "isPlaying (nature_update delta s) = isPlaying s"
  "isRaining (nature_update delta s) = isRaining s"
  "rainIntensity (nature_update delta s) = rainIntensity s"
  "dayTime (nature_update delta s) = dayTime s + delta * 0.1"
  by (simp_all add: nature_update_def)

lemma animate_time:
  "time (animate rnd dt lag s) =
     (if timeSpeed s > 0
      then (if time s + timeSpeed s * 0.01 \<ge> 24 then 0 else time s + timeSpeed s * 0.01)
      else time s)"
  by (simp add: animate_def Let_def updateRain_frame nature_update_frame)

lemma animate_timeSpeed: "timeSpeed (animate rnd dt lag s) = timeSpeed s"
  by (simp add: animate_def Let_def updateRain_frame nature_update_frame)

lemma animate_dayTime:
  "dayTime (animate rnd dt lag s) =
     (if timeSpeed s > 0 then time (animate rnd dt lag s) + dt * 0.1 + lag * 0.1
      else dayTime s + dt * 0.1)"
  by (simp add: animate_def Let_def updateRain_frame nature_update_frame)

lemma animate_hour_range:
  "0 \<le> time s \<Longrightarrow> time s < 24 \<Longrightarrow> 0 \<le> time (animate rnd dt lag s) \<and> time (animate rnd dt lag s) < 24"
  by (simp add: animate_time)

lemma clock_step_hour_range:
  "is_clock_step e \<Longrightarrow> 0 \<le> time s \<Longrightarrow> time s < 24 \<Longrightarrow>
   0 \<le> time (sim_step rnd s e) \<and> time (sim_step rnd s e) < 24"
  by (cases e)
     (simp_all add: animate_time setSpeed_def setPlay_def setRainEnabled_def
        setRainIntensity_def cloudsLoaded_def case_prod_beta)

lemma run_hour_range:
  "list_all is_clock_step es \<Longrightarrow> 0 \<le> time s \<Longrightarrow> time s < 24 \<Longrightarrow>
   0 \<le> time (sim_run rnd s es) \<and> time (sim_run rnd s es) < 24"
proof (induction es arbitrary: s)
  case Nil
  then show ?case by simp
next
  case (Cons e es)
  from Cons.prems have "0 \<le> time (sim_step rnd s e) \<and> time (sim_step rnd s e) < 24"
    using clock_step_hour_range by simp
  with Cons show ?case by simp
qed

text \<open>
  Claim C3, as stated, fails: the hour does not wrap modulo 24. From hour 23.5, twenty-five
  frames at speed 4 advance the clock by 1.0 in all; the frame that passes 24 sets the
  hour to 0 and drops the overshoot, so the hour ends at 0.48, where the sum modulo 24
  is 0.5.
\<close>

theorem hour_reset_not_modulo:
  "time late_evening = 23.5 \<and> timeSpeed late_evening = 4
   \<and> time (sim_run rnd_half late_evening (replicate 25 (Frame 0.016 0.001))) = 0.48
   \<and> js_rem (23.5 + 25 * (4 * 0.01)) 24 = 0.5"
  by (simp add: late_evening_def animate_def updateRain_def nature_update_def Let_def
        numeral_eq_Suc js_rem_def)

text \<open>
  Claim C3, amended. For every starting hour in [0,24) and every sequence of frames and
  of changes of speed and of the play flag, the hour stays in [0,24). A frame whose
  advance stays below 24 adds \<open>timeSpeed * 0.01\<close>; a frame whose advance reaches or passes
  24 sets the hour to exactly 0.
\<close>

theorem hour_stays_in_day:
  assumes "0 \<le> time s" and "time s < 24" and "list_all is_clock_step es"
  shows "0 \<le> time (sim_run rnd s es) \<and> time (sim_run rnd s es) < 24
         \<and> (0 < timeSpeed s \<and> 24 \<le> time s + timeSpeed s * 0.01 \<longrightarrow> time (animate rnd dt lag s) = 0)
         \<and> (0 < timeSpeed s \<and> time s + timeSpeed s * 0.01 < 24 \<longrightarrow>
              time (animate rnd dt lag s) = time s + timeSpeed s * 0.01)"
  using assms run_hour_range [of es s rnd] by (simp add: animate_time)

text \<open>The amended claim C3 from hour 23.5 at speed 4, through a change of speed.\<close>

theorem hour_stays_in_day_witness:
  "0 \<le> time late_evening \<and> time late_evening < 24
   \<and> list_all is_clock_step [Frame 0.016 0.001, SetSpeed 10, SetPlay True, Frame 0.016 0.001]
   \<and> 0 \<le> time (sim_run rnd_half late_evening [Frame 0.016 0.001, SetSpeed 10, SetPlay True, Frame 0.016 0.001])
   \<and> time (sim_run rnd_half late_evening [Frame 0.016 0.001, SetSpeed 10, SetPlay True, Frame 0.016 0.001]) < 24
   \<and> time (animate rnd_half 0.016 0.001 late_evening) = 23.54"
  using hour_stays_in_day [of late_evening
          "[Frame 0.016 0.001, SetSpeed 10, SetPlay True, Frame 0.016 0.001]" rnd_half
          "0.016" "0.001"]
  by (simp add: late_evening_def)

text \<open>
  Claim C7, as stated, fails: a frame for which the clock reports that no time has passed
  still moves the hour, from 0 to 0.01 at speed 1.
\<close>

theorem tick_ignores_elapsed_time:
  "time midnight_start = 0 \<and> timeSpeed midnight_start = 1
   \<and> time (animate rnd_half 0 0 midnight_start) = 0.01"
  by (simp add: animate_time midnight_start_def)

text \<open>
  Claim C7, amended. A frame moves the hour \<open>this.time\<close> by \<open>timeSpeed * 0.01\<close> whatever
  the clock reports as elapsed, and sets it to 0 when that sum reaches 24; when the speed
  is 0 the hour does not move. The elapsed time does not reach the hour; it reaches
  \<open>dayTime\<close> of \<open>NatureScene\<close>, which \<open>animate\<close> updates in the same frame: at a
  positive speed \<open>dayTime\<close> is left at the new hour plus a tenth of the two clock
  readings of the frame, and at speed 0 it grows by a tenth of the elapsed time.
\<close>

theorem tick_advance:
  "time (animate rnd dt lag s) = time (animate rnd dt' lag' s)
   \<and> (timeSpeed s = 0 \<longrightarrow> time (animate rnd dt lag s) = time s)
   \<and> (0 < timeSpeed s \<and> time s + timeSpeed s * 0.01 < 24 \<longrightarrow>
        time (animate rnd dt lag s) = time s + timeSpeed s * 0.01)
   \<and> (0 < timeSpeed s \<and> 24 \<le> time s + timeSpeed s * 0.01 \<longrightarrow>
        time (animate rnd dt lag s) = 0)
   \<and> (0 < timeSpeed s \<longrightarrow>
        dayTime (animate rnd dt lag s) = time (animate rnd dt lag s) + dt * 0.1 + lag * 0.1)
   \<and> (timeSpeed s = 0 \<longrightarrow> dayTime (animate rnd dt lag s) = dayTime s + dt * 0.1)"
  by (simp add: animate_time animate_dayTime)

text \<open>
  The amended claim C7 at midnight: speed 1 with 0 and with 5 seconds elapsed, and
  speed 0 with 5 seconds elapsed.
\<close>

theorem tick_advance_witness:
  "time (animate rnd_half 0 0 midnight_start) = time (animate rnd_half 5 0.001 midnight_start)
   \<and> time (animate rnd_half 5 0.001 midnight_start) = 0.01
   \<and> dayTime (animate rnd_half 5 0.001 midnight_start) = 0.5101
   \<and> time (animate rnd_half 5 0.001 (setSpeed 0 midnight_start)) = 0
   \<and> dayTime (animate rnd_half 5 0.001 (setSpeed 0 midnight_start)) = 0.5"
  using tick_advance [of rnd_half 0 0 midnight_start 5 "0.001"]
        tick_advance [of rnd_half 5 "0.001" midnight_start 5 "0.001"]
        tick_advance [of rnd_half 5 "0.001" "setSpeed 0 midnight_start" 5 "0.001"]
  by (simp add: midnight_start_def setSpeed_def)

text \<open>
  Claim C9. The play control overwrites the speed: pausing sets it to 0, resuming sets it
  to exactly 1, whatever it was; the hour itself is left alone. A frame then moves the
  hour if and only if the speed is above 0, and so does every frame at a speed the
  slider can give.
\<close>

theorem play_overwrites_speed:
  "timeSpeed (setPlay False s) = 0 \<and> timeSpeed (setPlay True s) = 1
   \<and> isPlaying (setPlay v s) = v \<and> time (setPlay v s) = time s
   \<and> ((time (animate rnd dt lag (setPlay v s)) \<noteq> time (setPlay v s)) = (0 < timeSpeed (setPlay v s)))
   \<and> (0 \<le> time s \<and> timeSpeed s \<le> 10 \<longrightarrow>
        ((time (animate rnd dt lag s) \<noteq> time s) = (0 < timeSpeed s)))"
  by (auto simp add: setPlay_def animate_time)

text \<open>Claim C9 at midnight with the speed set to 7, paused and resumed.\<close>

theorem play_overwrites_speed_witness:
  "timeSpeed (setPlay True (setPlay False (setSpeed 7 midnight_start))) = 1
   \<and> timeSpeed (setPlay False (setSpeed 7 midnight_start)) = 0
   \<and> 0 \<le> time (setSpeed 7 midnight_start) \<and> timeSpeed (setSpeed 7 midnight_start) \<le> 10
   \<and> time (animate rnd_half 0.016 0.001 (setSpeed 7 midnight_start)) \<noteq> time (setSpeed 7 midnight_start)"
  using play_overwrites_speed [of "setSpeed 7 midnight_start" False rnd_half "0.016" "0.001"]
        play_overwrites_speed [of "setPlay False (setSpeed 7 midnight_start)" True rnd_half
          "0.016" "0.001"]
  by (simp add: midnight_start_def setSpeed_def setPlay_def)

section \<open>The rain\<close>

lemma new_drops_ok:
  "\<forall>k. 0 \<le> rnd k \<and> rnd k < 1 \<Longrightarrow>
   list_all drop_ok (fst (new_drops rnd k n)) \<and> length (fst (new_drops rnd k n)) = n"
proof (induction n arbitrary: k)
  case 0
  then show ?case by simp
next
  case (Suc n)
  have r: "0 \<le> rnd j" "rnd j \<le> 1" for j
    using Suc.prems by (simp_all add: less_imp_le)
  have "drop_ok \<lparr> px = (rnd k - 0.5) * 200, py = rnd (k + 1) * 100,
                  pz = (rnd (k + 2) - 0.5) * 200, velocity = 0.5 + rnd (k + 3) * 0.5 \<rparr>"
    by (simp add: drop_ok_def r)
  with Suc.IH [OF Suc.prems, of "k + 4"] show ?case
    by (simp add: Let_def case_prod_beta)
qed

lemma respawn_ok:
  "\<forall>k. 0 \<le> rnd k \<and> rnd k < 1 \<Longrightarrow> list_all (\<lambda>d. 0 \<le> velocity d) ds \<Longrightarrow>
   list_all drop_ok (fst (respawn rnd k ds)) \<and> length (fst (respawn rnd k ds)) = length ds"
proof (induction ds arbitrary: k)
  case Nil
  then show ?case by simp
next
  case (Cons d ds)
  have r: "0 \<le> rnd j" "rnd j \<le> 1" for j
    using Cons.prems by (simp_all add: less_imp_le)
  have "drop_ok (d\<lparr> px := (rnd k - 0.5) * 200, py := rnd (k + 1) * 100,
                    pz := (rnd (k + 2) - 0.5) * 200 \<rparr>)"
    using Cons.prems by (simp add: drop_ok_def r)
  moreover have "list_all drop_ok (fst (respawn rnd (k + 3) ds))
      \<and> length (fst (respawn rnd (k + 3) ds)) = length ds"
    using Cons.IH [of "k + 3"] Cons.prems by simp
  ultimately show ?case
    by (simp add: Let_def case_prod_beta)
qed

lemma fall_ok:
  "0 \<le> a \<Longrightarrow> list_all drop_ok ds \<Longrightarrow>
   list_all drop_ok (fst (fall rnd a k ds)) \<and> length (fst (fall rnd a k ds)) = length ds"
proof (induction ds arbitrary: k)
  case Nil
  then show ?case by simp
next
  case (Cons d ds)
  have ds: "list_all drop_ok ds" and "drop_ok d"
    using Cons.prems by simp_all
  then have d: "0 \<le> py d" "py d \<le> 100" "0 \<le> velocity d"
    by (simp_all add: drop_ok_def)
  have va: "0 \<le> velocity d * a"
    using d Cons.prems by simp
  have ih: "list_all drop_ok (fst (fall rnd a j ds)) \<and> length (fst (fall rnd a j ds)) = length ds" for j
    using Cons.IH [of j] Cons.prems(1) ds by simp
  show ?case
  proof (cases "py d - velocity d * a < 0")
    case True
    have "drop_ok (d\<lparr> py := 100, px := (rnd k - 0.5) * 200, pz := (rnd (k + 1) - 0.5) * 200 \<rparr>)"
      using d by (simp add: drop_ok_def)
    with True ih [of "k + 2"] show ?thesis
      by (simp add: Let_def case_prod_beta)
  next
    case False
    have "drop_ok (d\<lparr> py := py d - velocity d * a \<rparr>)"
      using d va False by (simp add: drop_ok_def)
    with False ih [of k] show ?thesis
      by (simp add: Let_def case_prod_beta)
  qed
qed

lemma drop_ok_velocity: "list_all drop_ok ds \<Longrightarrow> list_all (\<lambda>d. 0 \<le> velocity d) ds"
  by (induction ds) (simp_all add: drop_ok_def)

lemma rain_ok_init: "\<forall>k. 0 \<le> rnd k \<and> rnd k < 1 \<Longrightarrow> rain_ok (sim_init rnd)"
  using new_drops_ok [of rnd 0 rainCount]
  by (simp add: rain_ok_def sim_init_def createRain_def case_prod_beta)

lemma rain_ok_animate: "rain_ok s \<Longrightarrow> rain_ok (animate rnd dt lag s)"
proof -
  assume a: "rain_ok s"
  have u: "rain_ok (updateRain rnd t)" if "rain_ok t" for t
    using that fall_ok [of "rainIntensity t" "rain t" rnd "calls t"]
    by (simp add: rain_ok_def updateRain_def case_prod_beta)
  have n: "rain_ok (nature_update delta t)" if "rain_ok t" for t delta
    using that by (simp add: rain_ok_def nature_update_frame)
  have "rain_ok (s\<lparr> time := x, dayTime := y \<rparr>)" for x y
    using a by (simp add: rain_ok_def)
  then show ?thesis
    using a by (simp add: animate_def Let_def u n)
qed

lemma rain_ok_step:
  "\<forall>k. 0 \<le> rnd k \<and> rnd k < 1 \<Longrightarrow> in_slider_range e \<Longrightarrow> rain_ok s \<Longrightarrow>
   rain_ok (sim_step rnd s e)"
proof (cases e)
  case (Frame dt lag)
  assume "rain_ok s"
  with Frame show ?thesis by (simp add: rain_ok_animate)
next
  case (SetRainEnabled v)
  assume a: "\<forall>k. 0 \<le> rnd k \<and> rnd k < 1" "rain_ok s"
  then have "list_all (\<lambda>d. 0 \<le> velocity d) (rain s)"
    by (simp add: rain_ok_def drop_ok_velocity)
  from respawn_ok [OF a(1) this, of "calls s"] a(2) SetRainEnabled show ?thesis
    by (simp add: rain_ok_def setRainEnabled_def case_prod_beta)
qed (simp_all add: rain_ok_def setHour_def setSpeed_def setPlay_def setRainIntensity_def
      cloudsLoaded_def nature_update_frame)

lemma rain_ok_run:
  "\<forall>k. 0 \<le> rnd k \<and> rnd k < 1 \<Longrightarrow> list_all in_slider_range es \<Longrightarrow> rain_ok s \<Longrightarrow>
   rain_ok (sim_run rnd s es)"
  by (induction es arbitrary: s) (simp_all add: rain_ok_step)

text \<open>What one frame does to the drop at index i.\<close>

lemma fall_nth:
  "i < length ds \<Longrightarrow>
   (let d = ds ! i; d' = fst (fall rnd a k ds) ! i; y = py d - velocity d * a in
    if y < 0
    then py d' = 100 \<and> velocity d' = velocity d
         \<and> (\<exists>j\<ge>k. px d' = (rnd j - 0.5) * 200 \<and> pz d' = (rnd (j + 1) - 0.5) * 200)
    else d' = d\<lparr> py := y \<rparr>)"
proof (induction ds arbitrary: i k)
  case Nil
  then show ?case by simp
next
  case (Cons d ds)
  show ?case
  proof (cases i)
    case 0
    then show ?thesis
      by (auto simp add: Let_def case_prod_beta)
  next
    case (Suc n)
    then have n: "n < length ds" using Cons.prems by simp
    show ?thesis
    proof (cases "py d - velocity d * a < 0")
      case True
      from Cons.IH [OF n, of "k + 2"] True Suc show ?thesis
        by (simp add: Let_def case_prod_beta split: if_splits) (metis Suc_leD)
    next
      case False
      from Cons.IH [OF n, of k] False Suc show ?thesis
        by (simp add: Let_def case_prod_beta)
    qed
  qed
qed


lemma animate_rain:
  "rain (animate rnd dt lag s) =
     (if isRaining s then fst (fall rnd (rainIntensity s) (calls s) (rain s)) else rain s)"
  by (simp add: animate_def updateRain_def nature_update_def Let_def case_prod_beta)

lemma animate_rain_nth:
  assumes "isRaining s" and "i < length (rain s)"
  shows "(let d = rain s ! i; d' = rain (animate rnd dt lag s) ! i;
        y = py d - velocity d * rainIntensity s in
    if y < 0
    then py d' = 100 \<and> velocity d' = velocity d
         \<and> (\<exists>j\<ge>calls s. px d' = (rnd j - 0.5) * 200 \<and> pz d' = (rnd (j + 1) - 0.5) * 200)
    else d' = d\<lparr> py := y \<rparr>)"
proof -
  have eq: "rain (animate rnd dt lag s) = fst (fall rnd (rainIntensity s) (calls s) (rain s))"
    using assms(1) by (simp add: animate_rain)
  show ?thesis
    unfolding eq by (rule fall_nth [OF assms(2)])
qed

lemma animate_rain_off: "\<not> isRaining s \<Longrightarrow> rain (animate rnd dt lag s) = rain s"
  by (simp add: animate_rain)

lemma sample_range: "0 \<le> r \<Longrightarrow> r < 1 \<Longrightarrow> - 100 \<le> (r - 0.5) * 200 \<and> (r - 0.5) * 200 < (100::real)"
  by simp

text \<open>
  Claim C6. With \<open>Math.random()\<close> in [0,1) and the controls within their slider ranges,
  after the constructor and any sequence of frames and control changes every drop has
  its y in [0,100]. In a frame with the rain enabled each drop loses
  \<open>velocity * rainIntensity\<close> of its y; a drop that would go below 0 is set to exactly
  100 with x and z drawn anew, both in [-100,100].
\<close>

theorem rain_stays_in_column:
  assumes "\<forall>k. 0 \<le> rnd k \<and> rnd k < 1" and "list_all in_slider_range es"
  shows "list_all (\<lambda>d. 0 \<le> py d \<and> py d \<le> 100) (rain (sim_run rnd (sim_init rnd) es))
    \<and> (\<forall>s i. isRaining s \<and> i < length (rain s) \<longrightarrow>
          (let d = rain s ! i; d' = rain (animate rnd dt lag s) ! i;
               y = py d - velocity d * rainIntensity s in
           if y < 0
           then py d' = 100 \<and> - 100 \<le> px d' \<and> px d' \<le> 100 \<and> - 100 \<le> pz d' \<and> pz d' \<le> 100
                \<and> (\<exists>j\<ge>calls s. px d' = (rnd j - 0.5) * 200 \<and> pz d' = (rnd (j + 1) - 0.5) * 200)
           else d' = d\<lparr> py := y \<rparr>))"
proof -
  have "rain_ok (sim_run rnd (sim_init rnd) es)"
    using assms by (simp add: rain_ok_run rain_ok_init)
  then have "list_all drop_ok (rain (sim_run rnd (sim_init rnd) es))"
    by (simp add: rain_ok_def)
  then have a: "list_all (\<lambda>d. 0 \<le> py d \<and> py d \<le> 100) (rain (sim_run rnd (sim_init rnd) es))"
    by (simp add: list_all_iff drop_ok_def)
  have r: "- 100 \<le> (rnd j - 0.5) * 200 \<and> (rnd j - 0.5) * 200 \<le> 100" for j
    using assms(1) sample_range [of "rnd j"] by (simp add: less_imp_le)
  have b: "(let d = rain s ! i; d' = rain (animate rnd dt lag s) ! i;
               y = py d - velocity d * rainIntensity s in
           if y < 0
           then py d' = 100 \<and> - 100 \<le> px d' \<and> px d' \<le> 100 \<and> - 100 \<le> pz d' \<and> pz d' \<le> 100
                \<and> (\<exists>j\<ge>calls s. px d' = (rnd j - 0.5) * 200 \<and> pz d' = (rnd (j + 1) - 0.5) * 200)
           else d' = d\<lparr> py := y \<rparr>)"
    if "isRaining s" "i < length (rain s)" for s i
  proof (cases "py (rain s ! i) - velocity (rain s ! i) * rainIntensity s < 0")
    case True
    with animate_rain_nth [OF that, of rnd dt lag] obtain j where
      j: "py (rain (animate rnd dt lag s) ! i) = 100" "calls s \<le> j"
         "px (rain (animate rnd dt lag s) ! i) = (rnd j - 0.5) * 200"
         "pz (rain (animate rnd dt lag s) ! i) = (rnd (j + 1) - 0.5) * 200"
      by (auto simp add: Let_def)
    have "- 100 \<le> px (rain (animate rnd dt lag s) ! i) \<and> px (rain (animate rnd dt lag s) ! i) \<le> 100"
      using r [of j] j(3) by simp
    moreover have "- 100 \<le> pz (rain (animate rnd dt lag s) ! i) \<and> pz (rain (animate rnd dt lag s) ! i) \<le> 100"
      using r [of "j + 1"] j(4) by simp
    ultimately show ?thesis
      using True j unfolding Let_def by auto
  next
    case False
    with animate_rain_nth [OF that, of rnd dt lag] show ?thesis
      by (simp add: Let_def)
  qed
  from a b show ?thesis by blast
qed

text \<open>
  Claim C6 with every draw one half: the rain of the constructor, enabled and run for a
  frame at intensity 3, and a frame on two drops of which the first falls through.
\<close>

theorem rain_stays_in_column_witness:
  "(\<forall>k. 0 \<le> rnd_half k \<and> rnd_half k < 1)
   \<and> list_all in_slider_range [SetRainEnabled True, SetRainIntensity 3, Frame 0.016 0.001]
   \<and> list_all (\<lambda>d. 0 \<le> py d \<and> py d \<le> 100)
        (rain (sim_run rnd_half (sim_init rnd_half) [SetRainEnabled True, SetRainIntensity 3, Frame 0.016 0.001]))
   \<and> isRaining two_drops \<and> 0 < length (rain two_drops)
   \<and> py (rain two_drops ! 0) - velocity (rain two_drops ! 0) * rainIntensity two_drops < 0
   \<and> py (rain (animate rnd_half 0.016 0.001 two_drops) ! 0) = 100
   \<and> px (rain (animate rnd_half 0.016 0.001 two_drops) ! 0) = 0
   \<and> py (rain (animate rnd_half 0.016 0.001 two_drops) ! 1) = 47"
proof -
  have h1: "\<forall>k. 0 \<le> rnd_half k \<and> rnd_half k < 1"
    by (simp add: rnd_half_def)
  have h2: "list_all in_slider_range [SetRainEnabled True, SetRainIntensity 3, Frame 0.016 0.001]"
    by simp
  note t = rain_stays_in_column [OF h1 h2]
  have "py (rain (animate rnd_half 0.016 0.001 two_drops) ! 0) = 100
   \<and> px (rain (animate rnd_half 0.016 0.001 two_drops) ! 0) = 0
   \<and> py (rain (animate rnd_half 0.016 0.001 two_drops) ! 1) = 47"
    by (simp add: two_drops_def animate_def updateRain_def nature_update_def Let_def
          rnd_half_def)
  moreover have "isRaining two_drops \<and> 0 < length (rain two_drops)
   \<and> py (rain two_drops ! 0) - velocity (rain two_drops ! 0) * rainIntensity two_drops < 0"
    by (simp add: two_drops_def)
  ultimately show ?thesis
    using h1 h2 t by blast
qed

section \<open>The registry\<close>

lemmas world_eval =
  world_base_def addLight_def addObject_def removeLight_def deleteObject_def
  click_def Let_def scene_add_def scene_remove_def gui_removeFolder_def has_folder_def
  light_name_def object_name_def string_of_nat.simps

lemma world_init_eq:
  "world_init strict =
     \<lparr> scene = [0, 1, 2, 3, 4, 13, 14, 16, 17, 19, 20, 22, 24, 26, 28],
       gui = fixed_folders @
             [\<lparr> fid = 15, title = ''Directional Light 1 (edit or remove)'',
                 button = RemoveLight ''Directional Light 1 (edit or remove)'' \<rparr>,
              \<lparr> fid = 18, title = ''Point Light 2 (edit or remove)'',
                 button = RemoveLight ''Point Light 2 (edit or remove)'' \<rparr>,
              \<lparr> fid = 21, title = ''Spot Light 3 (edit or remove)'',
                 button = RemoveLight ''Spot Light 3 (edit or remove)'' \<rparr>,
              \<lparr> fid = 23, title = ''Sphere 1 (edit or remove)'', button = DeleteObject 22 23 \<rparr>,
              \<lparr> fid = 25, title = ''Cube 2 (edit or remove)'', button = DeleteObject 24 25 \<rparr>,
              \<lparr> fid = 27, title = ''Torus 3 (edit or remove)'', button = DeleteObject 26 27 \<rparr>],
       lightSources =
             [white_light ''Directional'' ''Directional Light 1 (edit or remove)'' 13,
              white_light ''Point'' ''Point Light 2 (edit or remove)'' 16,
              white_light ''Spot'' ''Spot Light 3 (edit or remove)'' 19],
       objects = [22, 24, 26],
       materials = [22 \<mapsto> gray, 24 \<mapsto> gray, 26 \<mapsto> gray],
       played = [''addLight'', ''addLight'', ''addLight'', ''addObject'', ''addObject'', ''addObject''],
       fresh = 29 \<rparr>"
  by (simp add: world_init_def world_eval gray_def white_light_def fixed_folders_def)

lemma one_point_light_eq:
  "one_point_light strict =
     \<lparr> scene = [0, 1, 2, 3, 4, 16, 17, 22, 24, 26, 28],
       gui = fixed_folders @
             [\<lparr> fid = 18, title = ''Point Light 2 (edit or remove)'',
                 button = RemoveLight ''Point Light 2 (edit or remove)'' \<rparr>,
              \<lparr> fid = 23, title = ''Sphere 1 (edit or remove)'', button = DeleteObject 22 23 \<rparr>,
              \<lparr> fid = 25, title = ''Cube 2 (edit or remove)'', button = DeleteObject 24 25 \<rparr>,
              \<lparr> fid = 27, title = ''Torus 3 (edit or remove)'', button = DeleteObject 26 27 \<rparr>],
       lightSources = [white_light ''Point'' ''Point Light 2 (edit or remove)'' 16],
       objects = [22, 24, 26],
       materials = [22 \<mapsto> gray, 24 \<mapsto> gray, 26 \<mapsto> gray],
       played = [''addLight'', ''addLight'', ''addLight'', ''addObject'', ''addObject'',
                 ''addObject'', ''removeLight'', ''removeLight''],
       fresh = 29 \<rparr>"
  by (simp add: one_point_light_def world_init_eq world_eval white_light_def fixed_folders_def)

text \<open>
  Claim C1. The name of a new light counts the lights that are live, so after removals
  it can repeat the name of a live light. With one light left, Point Light 2, the next
  point light is Point Light 2 as well. On a panel that takes the second folder, the
  round trip removes the older light, its helper and its folder and drops both entries:
  the count goes from 1 to 0 and the new light, helper and folder stay behind. On a
  panel that refuses the title, the create stops at \<open>addFolder\<close> with the new light
  and helper already in the scene and nothing registered. (When no live light and no
  folder has the new name, the round trip does restore lights, scene and panel:
  \<open>round_trip_fresh_name\<close> below.)
\<close>

theorem round_trip_removes_other_light:
  "length (lightSources (one_point_light False)) = 1
   \<and> length (lightSources (create_then_remove False ''Point'' (one_point_light False))) = 0
   \<and> scene (one_point_light False) = [0, 1, 2, 3, 4, 16, 17, 22, 24, 26, 28]
   \<and> scene (create_then_remove False ''Point'' (one_point_light False))
       = [0, 1, 2, 3, 4, 22, 24, 26, 28, 29, 30]
   \<and> map fid (gui (one_point_light False)) = [5, 6, 7, 8, 9, 10, 11, 12, 18, 23, 25, 27]
   \<and> map fid (gui (create_then_remove False ''Point'' (one_point_light False)))
       = [5, 6, 7, 8, 9, 10, 11, 12, 23, 25, 27, 31]
   \<and> fst (addLight True ''Point'' (one_point_light True))
       = Inl (DuplicateFolder ''Point Light 2 (edit or remove)'')
   \<and> scene (one_point_light True) = [0, 1, 2, 3, 4, 16, 17, 22, 24, 26, 28]
   \<and> scene (create_then_remove True ''Point'' (one_point_light True))
       = [0, 1, 2, 3, 4, 16, 17, 22, 24, 26, 28, 29, 30]
   \<and> length (lightSources (create_then_remove True ''Point'' (one_point_light True))) = 1"
  by (simp add: create_then_remove_def one_point_light_eq world_eval white_light_def
        fixed_folders_def)

lemma without_directional_eq:
  "without_directional strict =
     \<lparr> scene = [0, 1, 2, 3, 4, 16, 17, 19, 20, 22, 24, 26, 28],
       gui = fixed_folders @
             [\<lparr> fid = 18, title = ''Point Light 2 (edit or remove)'',
                 button = RemoveLight ''Point Light 2 (edit or remove)'' \<rparr>,
              \<lparr> fid = 21, title = ''Spot Light 3 (edit or remove)'',
                 button = RemoveLight ''Spot Light 3 (edit or remove)'' \<rparr>,
              \<lparr> fid = 23, title = ''Sphere 1 (edit or remove)'', button = DeleteObject 22 23 \<rparr>,
              \<lparr> fid = 25, title = ''Cube 2 (edit or remove)'', button = DeleteObject 24 25 \<rparr>,
              \<lparr> fid = 27, title = ''Torus 3 (edit or remove)'', button = DeleteObject 26 27 \<rparr>],
       lightSources = [white_light ''Point'' ''Point Light 2 (edit or remove)'' 16,
                       white_light ''Spot'' ''Spot Light 3 (edit or remove)'' 19],
       objects = [22, 24, 26],
       materials = [22 \<mapsto> gray, 24 \<mapsto> gray, 26 \<mapsto> gray],
       played = [''addLight'', ''addLight'', ''addLight'', ''addObject'', ''addObject'',
                 ''addObject'', ''removeLight''],
       fresh = 29 \<rparr>"
  by (simp add: without_directional_def world_init_eq world_eval white_light_def fixed_folders_def)

lemma after_fourth_light_eq:
  "after_fourth_light strict =
     \<lparr> scene = [0, 1, 2, 3, 4, 13, 14, 16, 17, 22, 24, 26, 28],
       gui = fixed_folders @
             [\<lparr> fid = 15, title = ''Directional Light 1 (edit or remove)'',
                 button = RemoveLight ''Directional Light 1 (edit or remove)'' \<rparr>,
              \<lparr> fid = 18, title = ''Point Light 2 (edit or remove)'',
                 button = RemoveLight ''Point Light 2 (edit or remove)'' \<rparr>,
              \<lparr> fid = 23, title = ''Sphere 1 (edit or remove)'', button = DeleteObject 22 23 \<rparr>,
              \<lparr> fid = 25, title = ''Cube 2 (edit or remove)'', button = DeleteObject 24 25 \<rparr>,
              \<lparr> fid = 27, title = ''Torus 3 (edit or remove)'', button = DeleteObject 26 27 \<rparr>],
       lightSources = [white_light ''Directional'' ''Directional Light 1 (edit or remove)'' 13,
                       white_light ''Point'' ''Point Light 2 (edit or remove)'' 16],
       objects = [22, 24, 26],
       materials = [22 \<mapsto> gray, 24 \<mapsto> gray, 26 \<mapsto> gray],
       played = [''addLight'', ''addLight'', ''addLight'', ''addObject'', ''addObject'',
                 ''addObject'', ''addLight'', ''removeLight'', ''removeLight''],
       fresh = 32 \<rparr>"
  by (simp add: after_fourth_light_def world_init_eq world_eval white_light_def fixed_folders_def)

text \<open>
  Claim C2. With the directional light removed, the next spot light is named Spot Light
  3, the name of the live spot light: a panel that takes the folder leaves two live
  entries of one name, a panel that refuses it stops the create. The number in the name
  also goes down: a fourth light is Point Light 4, and after it and the spot light are
  removed the next light is Point Light 3.
\<close>

theorem light_names_repeat:
  "map name (lightSources (without_directional False))
     = [''Point Light 2 (edit or remove)'', ''Spot Light 3 (edit or remove)'']
   \<and> fst (addLight False ''Spot'' (without_directional False))
     = Inr (Some ''Spot Light 3 (edit or remove)'')
   \<and> map name (lightSources (snd (addLight False ''Spot'' (without_directional False))))
     = [''Point Light 2 (edit or remove)'', ''Spot Light 3 (edit or remove)'',
        ''Spot Light 3 (edit or remove)'']
   \<and> fst (addLight True ''Spot'' (without_directional True))
     = Inl (DuplicateFolder ''Spot Light 3 (edit or remove)'')
   \<and> fst (addLight strict ''Point'' (world_init strict))
     = Inr (Some ''Point Light 4 (edit or remove)'')
   \<and> fst (addLight strict ''Point'' (after_fourth_light strict))
     = Inr (Some ''Point Light 3 (edit or remove)'')"
proof -
  have a: "fst (addLight strict ''Point'' (after_fourth_light strict))
     = Inr (Some ''Point Light 3 (edit or remove)'')"
    by (simp add: after_fourth_light_eq world_eval white_light_def fixed_folders_def)
  have b: "fst (addLight strict ''Point'' (world_init strict))
     = Inr (Some ''Point Light 4 (edit or remove)'')"
    by (simp add: world_init_eq world_eval white_light_def fixed_folders_def)
  have c: "map name (lightSources (without_directional False))
     = [''Point Light 2 (edit or remove)'', ''Spot Light 3 (edit or remove)'']
   \<and> fst (addLight False ''Spot'' (without_directional False))
     = Inr (Some ''Spot Light 3 (edit or remove)'')
   \<and> map name (lightSources (snd (addLight False ''Spot'' (without_directional False))))
     = [''Point Light 2 (edit or remove)'', ''Spot Light 3 (edit or remove)'',
        ''Spot Light 3 (edit or remove)'']
   \<and> fst (addLight True ''Spot'' (without_directional True))
     = Inl (DuplicateFolder ''Spot Light 3 (edit or remove)'')"
    by (simp add: without_directional_eq world_eval white_light_def fixed_folders_def)
  from a b c show ?thesis by simp
qed

lemma twin_torus_eq:
  "twin_torus =
     \<lparr> scene = [0, 1, 2, 3, 4, 13, 14, 16, 17, 19, 20, 22, 26, 28, 29],
       gui = fixed_folders @
             [\<lparr> fid = 15, title = ''Directional Light 1 (edit or remove)'',
                 button = RemoveLight ''Directional Light 1 (edit or remove)'' \<rparr>,
              \<lparr> fid = 18, title = ''Point Light 2 (edit or remove)'',
                 button = RemoveLight ''Point Light 2 (edit or remove)'' \<rparr>,
              \<lparr> fid = 21, title = ''Spot Light 3 (edit or remove)'',
                 button = RemoveLight ''Spot Light 3 (edit or remove)'' \<rparr>,
              \<lparr> fid = 23, title = ''Sphere 1 (edit or remove)'', button = DeleteObject 22 23 \<rparr>,
              \<lparr> fid = 27, title = ''Torus 3 (edit or remove)'', button = DeleteObject 26 27 \<rparr>,
              \<lparr> fid = 30, title = ''Torus 3 (edit or remove)'', button = DeleteObject 29 30 \<rparr>],
       lightSources =
             [white_light ''Directional'' ''Directional Light 1 (edit or remove)'' 13,
              white_light ''Point'' ''Point Light 2 (edit or remove)'' 16,
              white_light ''Spot'' ''Spot Light 3 (edit or remove)'' 19],
       objects = [22, 26, 29],
       materials = [22 \<mapsto> gray, 24 \<mapsto> gray, 26 \<mapsto> gray, 29 \<mapsto> gray],
       played = [''addLight'', ''addLight'', ''addLight'', ''addObject'', ''addObject'',
                 ''addObject'', ''removeObject'', ''addObject''],
       fresh = 31 \<rparr>"
  by (simp add: twin_torus_def world_init_eq world_eval white_light_def fixed_folders_def gray_def)

lemma distinct_scene_add: "distinct sc \<Longrightarrow> distinct (scene_add h sc)"
  by (simp add: scene_add_def)

lemma distinct_scene_remove: "distinct sc \<Longrightarrow> distinct (scene_remove h sc)"
  by (simp add: scene_remove_def)

lemma set_scene_remove: "distinct sc \<Longrightarrow> set (scene_remove h sc) = set sc - {h}"
  by (simp add: scene_remove_def)

lemma set_gui_removeFolder: "set (gui_removeFolder f g) = {x \<in> set g. fid x \<noteq> f}"
  by (simp add: gui_removeFolder_def)

lemma deleteObject_frame:
  assumes "distinct (scene s)"
  shows "set (scene (deleteObject mesh f s)) = set (scene s) - {mesh}"
    and "set (objects (deleteObject mesh f s)) = set (objects s) - {mesh}"
    and "set (gui (deleteObject mesh f s)) = {g \<in> set (gui s). fid g \<noteq> f}"
    and "materials (deleteObject mesh f s) = materials s"
    and "lightSources (deleteObject mesh f s) = lightSources s"
    and "fresh (deleteObject mesh f s) = fresh s"
  using assms by (auto simp add: deleteObject_def set_scene_remove set_gui_removeFolder)

lemma click_delete:
  "find (\<lambda>g. fid g = h) (gui s) = Some g \<Longrightarrow> button g = DeleteObject mesh f \<Longrightarrow>
   click h s = deleteObject mesh f s"
  by (simp add: click_def)

subsection \<open>States the user can reach\<close>

lemma set_scene_add: "distinct sc \<Longrightarrow> set (scene_add h sc) = insert h (set sc)"
  by (auto simp add: scene_add_def)

lemma world_ok_addLight:
  assumes "world_ok s"
  shows "world_ok (snd (addLight strict type s))"
proof (cases "type \<noteq> ''Directional'' \<and> type \<noteq> ''Point'' \<and> type \<noteq> ''Spot''")
  case True
  then show ?thesis using assms by (simp add: addLight_def)
next
  case False
  show ?thesis
    using assms unfolding addLight_def Let_def if_not_P [OF False]
    by (auto simp add: world_ok_def distinct_scene_add set_scene_add list_all_iff)
qed

lemma world_ok_addObject:
  assumes "world_ok s"
  shows "world_ok (snd (addObject strict type s))"
proof (cases "type \<noteq> ''Sphere'' \<and> type \<noteq> ''Cube'' \<and> type \<noteq> ''Torus'' \<and> type \<noteq> ''Cylinder''
         \<and> type \<noteq> ''Cone''")
  case True
  then show ?thesis using assms by (simp add: addObject_def)
next
  case False
  show ?thesis
    using assms unfolding addObject_def Let_def if_not_P [OF False]
    by (auto simp add: world_ok_def distinct_scene_add set_scene_add list_all_iff)
qed


lemma world_ok_removeLight: "world_ok s \<Longrightarrow> world_ok (removeLight n s)"
  by (auto simp add: world_ok_def removeLight_def scene_remove_def gui_removeFolder_def
        distinct_map_filter list_all_iff split: option.splits)

lemma world_ok_deleteObject: "world_ok s \<Longrightarrow> world_ok (deleteObject mesh f s)"
  by (auto simp add: world_ok_def deleteObject_def scene_remove_def gui_removeFolder_def
        distinct_map_filter list_all_iff)

lemma world_ok_click: "world_ok s \<Longrightarrow> world_ok (click h s)"
proof -
  assume a: "world_ok s"
  have "world_ok (press b s)" for b
    using a by (cases b) (simp_all add: world_ok_removeLight world_ok_deleteObject)
  then show ?thesis
    using a by (simp add: click_def split: option.splits)
qed

lemma world_ok_step: "world_ok s \<Longrightarrow> world_ok (world_step strict s e)"
  by (cases e) (simp_all add: world_ok_addLight world_ok_addObject world_ok_click)

lemma world_ok_run: "world_ok s \<Longrightarrow> world_ok (world_run strict s es)"
  by (induction es arbitrary: s) (simp_all add: world_ok_step)

lemma world_ok_init: "world_ok (world_init strict)"
  by (simp add: world_init_eq world_ok_def fixed_folders_def world_base_def)

lemma reachable_distinct_scene: "distinct (scene (world_run strict (world_init strict) es))"
  using world_ok_run [OF world_ok_init, of strict strict es] by (simp add: world_ok_def)


lemma find_append_new:
  "list_all (\<lambda>y. \<not> P y) xs \<Longrightarrow> P x \<Longrightarrow> find P (xs @ [x]) = Some x"
  by (induction xs) simp_all

lemma addObject_binds:
  assumes "world_ok s" and "addObject strict type s = (Inr (Some (mesh, f)), s')"
  shows "mesh = fresh s \<and> mesh \<notin> set (scene s) \<and> mesh \<in> set (scene s')
    \<and> mesh \<in> set (objects s') \<and> materials s' mesh = Some gray
    \<and> find (\<lambda>g. fid g = f) (gui s')
        = Some \<lparr> fid = f, title = object_name type (length (objects s) + 1),
                  button = DeleteObject mesh f \<rparr>"
proof (cases "type \<noteq> ''Sphere'' \<and> type \<noteq> ''Cube'' \<and> type \<noteq> ''Torus'' \<and> type \<noteq> ''Cylinder''
         \<and> type \<noteq> ''Cone''")
  case True
  then show ?thesis using assms(2) by (simp add: addObject_def)
next
  case False
  have ok: "distinct (scene s)" "list_all (\<lambda>x. x < fresh s) (scene s)"
    "list_all (\<lambda>g. fid g < fresh s) (gui s)"
    using assms(1) by (simp_all add: world_ok_def)
  have new: "fresh s \<notin> set (scene s)"
    using ok(2) by (auto simp add: list_all_iff)
  have other: "list_all (\<lambda>g. \<not> fid g = Suc (fresh s)) (gui s)"
    using ok(3) by (auto simp add: list_all_iff)
  show ?thesis
  proof (cases "strict \<and> has_folder (object_name type (length (objects s) + 1)) (gui s)")
    case True
    then show ?thesis
      using assms(2) unfolding addObject_def Let_def if_not_P [OF False]
      by simp
  next
    case no_clash: False
    have "mesh = fresh s \<and> f = Suc (fresh s)
      \<and> scene s' = scene_add (fresh s) (scene s)
      \<and> objects s' = objects s @ [fresh s]
      \<and> materials s' = (materials s)(fresh s \<mapsto> gray)
      \<and> gui s' = gui s @ [\<lparr> fid = Suc (fresh s),
                title = object_name type (length (objects s) + 1),
                button = DeleteObject (fresh s) (Suc (fresh s)) \<rparr>]"
      using assms(2) no_clash unfolding addObject_def Let_def if_not_P [OF False]
      by (auto simp add: gray_def)
    then show ?thesis
      using new ok(1) other by (simp add: set_scene_add find_append_new)
  qed
qed


lemma round_trip_fresh_name:
  assumes ok: "world_ok s"
    and known: "type = ''Directional'' \<or> type = ''Point'' \<or> type = ''Spot''"
    and unused: "list_all (\<lambda>source. name source \<noteq> light_name type (length (lightSources s) + 1))
                   (lightSources s)"
    and no_folder: "\<not> has_folder (light_name type (length (lightSources s) + 1)) (gui s)"
  shows "lightSources (create_then_remove strict type s) = lightSources s
    \<and> scene (create_then_remove strict type s) = scene s
    \<and> gui (create_then_remove strict type s) = gui s
    \<and> objects (create_then_remove strict type s) = objects s"
proof -
  let ?n = "light_name type (length (lightSources s) + 1)"
  let ?l = "fresh s"
  let ?src = "\<lparr> name = ?n, light = ?l, helper = Suc ?l, color = 0xffffff, intensity = 5,
                 ltype = type, lfolder = Suc (Suc ?l) \<rparr>"
  let ?s4 = "s\<lparr> fresh := Suc (Suc (Suc ?l)),
                 scene := scene s @ [?l, Suc ?l],
                 gui := gui s @ [\<lparr> fid = Suc (Suc ?l), title = ?n, button = RemoveLight ?n \<rparr>],
                 lightSources := lightSources s @ [?src],
                 played := played s @ [''addLight''] \<rparr>"
  have k: "\<not> (type \<noteq> ''Directional'' \<and> type \<noteq> ''Point'' \<and> type \<noteq> ''Spot'')"
    using known by blast
  have inv: "distinct (scene s)" "list_all (\<lambda>x. x < ?l) (scene s)"
    "list_all (\<lambda>g. fid g < ?l) (gui s)"
    using ok by (simp_all add: world_ok_def)
  have new: "?l \<notin> set (scene s)" "Suc ?l \<notin> set (scene s)"
    using inv(2) by (auto simp add: list_all_iff)
  have sc: "scene_add (Suc ?l) (scene_add ?l (scene s)) = scene s @ [?l, Suc ?l]"
    using new by (simp add: scene_add_def remove1_idem remove1_append)
  have add: "addLight strict type s = (Inr (Some ?n), ?s4)"
    unfolding addLight_def Let_def if_not_P [OF k]
    using no_folder by (simp add: sc)
  have found: "find (\<lambda>source. name source = ?n) (lightSources ?s4) = Some ?src"
    using unused by (simp add: find_append_new)
  have rm_scene: "scene_remove (Suc ?l) (scene_remove ?l (scene s @ [?l, Suc ?l])) = scene s"
    using new by (simp add: scene_remove_def remove1_append)
  have rm_gui: "gui_removeFolder (Suc (Suc ?l))
      (gui s @ [\<lparr> fid = Suc (Suc ?l), title = ?n, button = RemoveLight ?n \<rparr>]) = gui s"
  proof -
    have "list_all (\<lambda>g. fid g \<noteq> Suc (Suc ?l)) (gui s)"
      using inv(3) by (auto simp add: list_all_iff)
    then show ?thesis
      unfolding gui_removeFolder_def by (simp add: filter_id_conv list_all_iff)
  qed
  have rm_src: "filter (\<lambda>source. name source \<noteq> ?n) (lightSources s @ [?src]) = lightSources s"
    using unused by (simp add: filter_id_conv list_all_iff)
  have "create_then_remove strict type s = removeLight ?n ?s4"
    by (simp add: create_then_remove_def add)
  then show ?thesis
    using found rm_scene rm_gui rm_src by (simp add: removeLight_def)
qed

text \<open>
  Claim C10. The delete button of an object folder holds the mesh and the folder that
  \<open>addObject\<close> made with it (\<open>addObject_binds\<close>). Pressing it takes that mesh out of
  the scene and out of the objects array and that folder out of the panel; every other
  child of the scene, every other object, every other folder (whatever its title), the
  materials and the lights stay as they are. The scene lists no child twice in any state
  the user can reach (\<open>reachable_distinct_scene\<close>).
\<close>

theorem delete_by_mesh_reference:
  assumes "distinct (scene s)"
    and "find (\<lambda>g. fid g = h) (gui s) = Some g"
    and "button g = DeleteObject mesh f"
  shows "mesh \<notin> set (scene (click h s)) \<and> mesh \<notin> set (objects (click h s))
    \<and> f \<notin> fid ` set (gui (click h s))
    \<and> (\<forall>x. x \<noteq> mesh \<longrightarrow>
          (x \<in> set (scene (click h s))) = (x \<in> set (scene s))
          \<and> (x \<in> set (objects (click h s))) = (x \<in> set (objects s)))
    \<and> (\<forall>g'. fid g' \<noteq> f \<longrightarrow> (g' \<in> set (gui (click h s))) = (g' \<in> set (gui s)))
    \<and> materials (click h s) = materials s
    \<and> lightSources (click h s) = lightSources s"
proof -
  have c: "click h s = deleteObject mesh f s"
    using assms(2,3) by (rule click_delete)
  show ?thesis
    unfolding c using deleteObject_frame [OF assms(1), of mesh f] by auto
qed

text \<open>
  Claim C10 on two objects whose folders are both titled Torus 3: deleting the newer
  one leaves the older mesh, its folder and its material.
\<close>

theorem delete_by_mesh_reference_witness:
  "distinct (scene twin_torus)
   \<and> find (\<lambda>g. fid g = 30) (gui twin_torus)
       = Some \<lparr> fid = 30, title = ''Torus 3 (edit or remove)'', button = DeleteObject 29 30 \<rparr>
   \<and> find (\<lambda>g. fid g = 27) (gui twin_torus)
       = Some \<lparr> fid = 27, title = ''Torus 3 (edit or remove)'', button = DeleteObject 26 27 \<rparr>
   \<and> 29 \<notin> set (scene (click 30 twin_torus)) \<and> 29 \<notin> set (objects (click 30 twin_torus))
   \<and> 30 \<notin> fid ` set (gui (click 30 twin_torus))
   \<and> 26 \<in> set (scene (click 30 twin_torus)) \<and> 26 \<in> set (objects (click 30 twin_torus))
   \<and> \<lparr> fid = 27, title = ''Torus 3 (edit or remove)'', button = DeleteObject 26 27 \<rparr>
         \<in> set (gui (click 30 twin_torus))
   \<and> materials (click 30 twin_torus) 26 = Some gray"
proof -
  have d: "distinct (scene twin_torus)"
    by (simp add: twin_torus_eq)
  have f: "find (\<lambda>g. fid g = 30) (gui twin_torus)
       = Some \<lparr> fid = 30, title = ''Torus 3 (edit or remove)'', button = DeleteObject 29 30 \<rparr>"
    by (simp add: twin_torus_eq fixed_folders_def world_base_def)
  have b: "button \<lparr> fid = 30, title = ''Torus 3 (edit or remove)'', button = DeleteObject 29 30 \<rparr>
       = DeleteObject 29 30"
    by simp
  have g: "find (\<lambda>g. fid g = 27) (gui twin_torus)
       = Some \<lparr> fid = 27, title = ''Torus 3 (edit or remove)'', button = DeleteObject 26 27 \<rparr>"
    by (simp add: twin_torus_eq fixed_folders_def world_base_def)
  have m: "26 \<in> set (scene twin_torus) \<and> 26 \<in> set (objects twin_torus)
      \<and> \<lparr> fid = 27, title = ''Torus 3 (edit or remove)'', button = DeleteObject 26 27 \<rparr>
         \<in> set (gui twin_torus)
      \<and> materials twin_torus 26 = Some gray"
    by (simp add: twin_torus_eq)
  from delete_by_mesh_reference [OF d f b] d f g m show ?thesis
    by simp
qed

end
